theory Spec2Isabelle
  imports
    Main
    "HOL-Library.Sublist"
    "HOL-Library.Char_ord"
    "HOL-Library.List_Lexorder"
    "HOL-Library.Extended_Nat"
begin

section \<open>Python string operations used by the fetcher\<close>

text \<open>
  Python \<open>str\<close> values are modelled as \<open>string\<close>; the text is taken to be ASCII, so that
  \<open>str.lower\<close> only moves \<open>A\<close>..\<open>Z\<close> and \<open>str.split()\<close>/\<open>str.strip()\<close> only see the ASCII
  white space characters.
\<close>

definition upper_letters :: string where
  "upper_letters = ''ABCDEFGHIJKLMNOPQRSTUVWXYZ''"

definition lower_letters :: string where
  "lower_letters = ''abcdefghijklmnopqrstuvwxyz''"

definition lower_char :: "char \<Rightarrow> char" where
  "lower_char c = (case map_of (zip upper_letters lower_letters) c of Some d \<Rightarrow> d | None \<Rightarrow> c)"

definition lower :: "string \<Rightarrow> string" where
  "lower s = map lower_char s"

definition whitespace :: string where
  "whitespace = [CHR '' '', CHR 0x09, CHR 0x0A, CHR 0x0B, CHR 0x0C, CHR 0x0D,
                 CHR 0x1C, CHR 0x1D, CHR 0x1E, CHR 0x1F]"

definition is_space :: "char \<Rightarrow> bool" where
  "is_space c = (c \<in> set whitespace)"

text \<open>\<open>k in s\<close> on strings: \<open>k\<close> occurs in \<open>s\<close> as a contiguous run.\<close>

fun py_in :: "string \<Rightarrow> string \<Rightarrow> bool" where
  "py_in k [] = (k = [])"
| "py_in k (c # s) = (prefix k (c # s) \<or> py_in k s)"

text \<open>\<open>s.find(k)\<close>: the lowest offset at which \<open>k\<close> occurs in \<open>s\<close>, or \<open>-1\<close>.\<close>

fun find_from :: "string \<Rightarrow> string \<Rightarrow> nat \<Rightarrow> int" where
  "find_from k [] i = (if k = [] then int i else - 1)"
| "find_from k (c # s) i = (if prefix k (c # s) then int i else find_from k s (Suc i))"

definition find_str :: "string \<Rightarrow> string \<Rightarrow> int" where
  "find_str s k = find_from k s 0"

text \<open>\<open>s.replace(".", "")\<close>.\<close>

definition remove_dots :: "string \<Rightarrow> string" where
  "remove_dots s = filter (\<lambda>c. c \<noteq> CHR ''.'') s"

text \<open>\<open>s.split()\<close>: the maximal runs of non-space characters, from left to right.\<close>

fun split_acc :: "string \<Rightarrow> string \<Rightarrow> string list" where
  "split_acc cur [] = (if cur = [] then [] else [cur])"
| "split_acc cur (c # s) =
     (if is_space c then (if cur = [] then split_acc [] s else cur # split_acc [] s)
      else split_acc (cur @ [c]) s)"

definition py_split :: "string \<Rightarrow> string list" where
  "py_split s = split_acc [] s"

text \<open>\<open>s.split(sep)\<close> for a one-character separator: empty fields are kept.\<close>

fun split_on_acc :: "char \<Rightarrow> string \<Rightarrow> string \<Rightarrow> string list" where
  "split_on_acc sep cur [] = [cur]"
| "split_on_acc sep cur (c # s) =
     (if c = sep then cur # split_on_acc sep [] s else split_on_acc sep (cur @ [c]) s)"

definition split_on :: "char \<Rightarrow> string \<Rightarrow> string list" where
  "split_on sep s = split_on_acc sep [] s"

text \<open>\<open>s.strip(chars)\<close> and \<open>s.strip()\<close>.\<close>

definition strip_chars :: "string \<Rightarrow> string \<Rightarrow> string" where
  "strip_chars cs s = rev (dropWhile (\<lambda>c. c \<in> set cs) (rev (dropWhile (\<lambda>c. c \<in> set cs) s)))"

definition strip :: "string \<Rightarrow> string" where
  "strip s = strip_chars whitespace s"

text \<open>\<open>sep.join(xs)\<close>.\<close>

fun join :: "string \<Rightarrow> string list \<Rightarrow> string" where
  "join sep [] = []"
| "join sep [x] = x"
| "join sep (x # y # xs) = x @ sep @ join sep (y # xs)"

text \<open>Truthiness of an \<open>Optional[str]\<close>: \<open>None\<close> and \<open>""\<close> are falsy.\<close>

fun truthy :: "string option \<Rightarrow> bool" where
  "truthy None = False"
| "truthy (Some s) = (s \<noteq> [])"

section \<open>The data model (models.py)\<close>

record Author =
  name :: string
  affiliation :: "string option"
  email :: "string option"
  is_corresponding :: bool
  is_non_academic :: bool
  company_name :: "string option"

text \<open>
  The keyword tables \<open>ACADEMIC_KEYWORDS\<close> and \<open>COMPANY_KEYWORDS\<close> are imported from a module
  that is not part of the sources at hand, so every function that reads them takes them
  as arguments (a Python set, given as a list of its members; the functions below only
  use \<open>any\<close> and \<open>min\<close> over them, which do not depend on the order).
\<close>

definition has_academic :: "string list \<Rightarrow> string \<Rightarrow> bool" where
  "has_academic ACADEMIC_KEYWORDS affiliation_lower =
     list_ex (\<lambda>keyword. py_in keyword affiliation_lower) ACADEMIC_KEYWORDS"

definition has_company :: "string list \<Rightarrow> string \<Rightarrow> bool" where
  "has_company COMPANY_KEYWORDS affiliation_lower =
     list_ex (\<lambda>keyword.
        keyword \<in> set (py_split (remove_dots affiliation_lower))
        \<or> py_in ('' '' @ keyword @ '' '') ('' '' @ affiliation_lower @ '' ''))
       COMPANY_KEYWORDS"

text \<open>
  The two position loops: the running minimum starts at \<open>float('inf')\<close>, here \<open>\<infinity>\<close>, and
  is lowered by every keyword that \<open>find\<close> locates.
\<close>

definition earliest_pos :: "string list \<Rightarrow> string \<Rightarrow> enat" where
  "earliest_pos KEYWORDS affiliation_lower =
     fold (\<lambda>keyword acc.
             (let pos = find_str affiliation_lower keyword
              in if pos \<noteq> - 1 then min acc (enat (nat pos)) else acc))
          KEYWORDS \<infinity>"

definition check_non_academic_affiliation :: "string list \<Rightarrow> string list \<Rightarrow> Author \<Rightarrow> bool" where
  "check_non_academic_affiliation ACADEMIC_KEYWORDS COMPANY_KEYWORDS self =
     (if \<not> truthy (affiliation self) then False
      else
        (let affiliation_lower = lower (the (affiliation self))
         in if has_academic ACADEMIC_KEYWORDS affiliation_lower
               \<and> has_company COMPANY_KEYWORDS affiliation_lower
            then earliest_pos COMPANY_KEYWORDS affiliation_lower
                   < earliest_pos ACADEMIC_KEYWORDS affiliation_lower
            else has_company COMPANY_KEYWORDS affiliation_lower))"

definition skip_words :: "string list" where
  "skip_words = [''department'', ''division'', ''unit'', ''group'', ''team'', ''laboratory'',
                 ''research'', ''development'', ''r&d'', ''@'', ''email'', ''address'',
                 ''tel'', ''fax'']"

definition kept_parts :: "string \<Rightarrow> string list" where
  "kept_parts aff =
     filter (\<lambda>p. p \<noteq> [] \<and> \<not> list_ex (\<lambda>skip. py_in skip (lower p)) skip_words)
            (map strip (split_on CHR '','' aff))"

definition clean_company_name :: "string \<Rightarrow> string" where
  "clean_company_name part =
     (let company_name = strip_chars ''., '' part
      in if CHR ''@'' \<in> set company_name
         then join '' '' (filter (\<lambda>word. CHR ''@'' \<notin> set word) (py_split company_name))
         else company_name)"

definition extract_company_name :: "string list \<Rightarrow> Author \<Rightarrow> string option" where
  "extract_company_name COMPANY_KEYWORDS self =
     (if \<not> truthy (affiliation self) \<or> \<not> is_non_academic self then None
      else
        (let parts = kept_parts (the (affiliation self))
         in if parts = [] then None
            else
              (case List.find
                      (\<lambda>part. list_ex (\<lambda>keyword. keyword \<in> set (py_split (remove_dots (lower part))))
                                       COMPANY_KEYWORDS)
                      parts of
                 Some part \<Rightarrow> Some (clean_company_name part)
               | None \<Rightarrow> Some (clean_company_name (hd parts)))))"

definition post_init :: "string list \<Rightarrow> string list \<Rightarrow> Author \<Rightarrow> Author" where
  "post_init ACADEMIC_KEYWORDS COMPANY_KEYWORDS self =
     (if truthy (affiliation self)
      then
        (let self1 = self\<lparr>is_non_academic :=
                            check_non_academic_affiliation ACADEMIC_KEYWORDS COMPANY_KEYWORDS self\<rparr>
         in if is_non_academic self1
            then self1\<lparr>company_name := extract_company_name COMPANY_KEYWORDS self1\<rparr>
            else self1)
      else self)"

text \<open>
  The dataclass constructor: the six fields as given (the last four have the defaults
  \<open>None\<close>, \<open>False\<close>, \<open>False\<close>, \<open>None\<close>), then \<open>__post_init__\<close>.
\<close>

definition mk_Author ::
  "string list \<Rightarrow> string list \<Rightarrow> string \<Rightarrow> string option \<Rightarrow> string option \<Rightarrow> bool \<Rightarrow> bool
     \<Rightarrow> string option \<Rightarrow> Author" where
  "mk_Author ACADEMIC_KEYWORDS COMPANY_KEYWORDS nm aff em corr nonacad cname =
     post_init ACADEMIC_KEYWORDS COMPANY_KEYWORDS
       \<lparr>name = nm, affiliation = aff, email = em, is_corresponding = corr,
        is_non_academic = nonacad, company_name = cname\<rparr>"

text \<open>
  Modelled from the spec: the members of the two keyword tables that the specification
  names (``university, institute, school, hospital'' and ``inc, ltd, corp, pharma,
  biotech, gmbh''); the module that defines the tables is not among the sources.
\<close>

definition ACADEMIC_KEYWORDS_named :: "string list" where
  "ACADEMIC_KEYWORDS_named = [''university'', ''institute'', ''school'', ''hospital'']"

definition COMPANY_KEYWORDS_named :: "string list" where
  "COMPANY_KEYWORDS_named = [''inc'', ''ltd'', ''corp'', ''pharma'', ''biotech'', ''gmbh'']"

subsection \<open>Papers\<close>

record date =
  year :: nat
  month :: nat
  day :: nat

record Paper =
  pubmed_id :: string
  title :: string
  publication_date :: date
  authors :: "Author list"
  abstract :: "string option"

definition non_academic_authors :: "Paper \<Rightarrow> Author list" where
  "non_academic_authors self = filter is_non_academic (authors self)"

text \<open>
  \<open>company_affiliations\<close> builds a Python set and sorts it; Python compares \<open>str\<close> values
  lexicographically by character code, which is the order of \<open>string\<close> here.
\<close>

definition company_affiliations :: "Paper \<Rightarrow> string list" where
  "company_affiliations self =
     sorted_list_of_set
       (set (map (\<lambda>author. the (company_name author))
                 (filter (\<lambda>author. company_name author \<noteq> None) (non_academic_authors self))))"

definition corresponding_author_email :: "Paper \<Rightarrow> string option" where
  "corresponding_author_email self =
     (case List.find (\<lambda>author. is_corresponding author \<and> truthy (email author)) (authors self) of
        Some author \<Rightarrow> email author
      | None \<Rightarrow>
          (case List.find (\<lambda>author. truthy (email author)) (authors self) of
             Some author \<Rightarrow> email author
           | None \<Rightarrow> None))"

section \<open>The parser (parser.py)\<close>

datatype py_error = ValueError | AttributeError

text \<open>
  \<open>datetime.strptime(date_str, fmt).date()\<close> belongs to the Python library, so \<open>parse_date\<close>
  takes it as an argument: on a \<open>str\<close> it either returns a date or raises \<open>ValueError\<close>.
  Any other exception is not caught by \<open>parse_date\<close>.
\<close>

definition default_date :: date where
  "default_date = \<lparr>year = 1900, month = 1, day = 1\<rparr>"

definition parse_date :: "(string \<Rightarrow> string \<Rightarrow> py_error + date) \<Rightarrow> string \<Rightarrow> py_error + date" where
  "parse_date strptime date_str =
     (case strptime date_str ''%Y-%m-%d'' of
        Inr d \<Rightarrow> Inr d
      | Inl ValueError \<Rightarrow>
          (case strptime date_str ''%Y-%b-%d'' of
             Inr d \<Rightarrow> Inr d
           | Inl ValueError \<Rightarrow> Inr default_date
           | Inl e \<Rightarrow> Inl e)
      | Inl e \<Rightarrow> Inl e)"

text \<open>
  A raw author record is the dictionary \<open>author_data\<close>. Each key the parser reads is a
  field; \<open>None\<close> stands for a missing key. An entry of \<open>AffiliationInfo\<close> is a dictionary
  with or without the key \<open>Affiliation\<close>, or something that is not a dictionary; the value
  under \<open>Affiliation\<close> is a string or something without a \<open>strip\<close> method, on which the
  parser raises \<open>AttributeError\<close>.
\<close>

datatype aff_value = AffText string | AffNoText

datatype aff_info = InfoDict "aff_value option" | InfoOther

datatype affiliation_field = AffiliationList "string list" | AffiliationStr string | AffiliationOther

record author_data =
  ad_name :: "string option"
  ad_AffiliationInfo :: "aff_info list option"
  ad_affiliation :: affiliation_field
  ad_is_corresponding :: "bool option"

text \<open>The first loop of \<open>parse_author\<close>: the stripped, non-empty \<open>Affiliation\<close> texts.\<close>

fun collect_affiliation_info :: "aff_info list \<Rightarrow> py_error + string list" where
  "collect_affiliation_info [] = Inr []"
| "collect_affiliation_info (InfoDict (Some (AffText t)) # rest) =
     (case collect_affiliation_info rest of
        Inl e \<Rightarrow> Inl e
      | Inr affs \<Rightarrow> Inr (if strip t \<noteq> [] then strip t # affs else affs))"
| "collect_affiliation_info (InfoDict (Some AffNoText) # rest) = Inl AttributeError"
| "collect_affiliation_info (InfoDict None # rest) = collect_affiliation_info rest"
| "collect_affiliation_info (InfoOther # rest) = collect_affiliation_info rest"

text \<open>\<open>s.replace(part, "")\<close> for a non-empty \<open>part\<close>: every occurrence, from the left, is cut out;
  the counter says how many characters of the occurrence being cut are still to drop.\<close>

fun remove_all_from :: "string \<Rightarrow> nat \<Rightarrow> string \<Rightarrow> string" where
  "remove_all_from part n [] = []"
| "remove_all_from part n (c # s) =
     (if 0 < n then remove_all_from part (n - 1) s
      else if prefix part (c # s) then remove_all_from part (length part - 1) s
      else c # remove_all_from part 0 s)"

definition remove_all :: "string \<Rightarrow> string \<Rightarrow> string" where
  "remove_all part s = remove_all_from part 0 s"

text \<open>The email loop: the first white-space token that passes both tests gives the email
  and is cut out of the affiliation.\<close>

definition email_candidate :: "string \<Rightarrow> string" where
  "email_candidate part = lower (strip_chars ''.,()<>[]{}'' part)"

definition is_email_part :: "string \<Rightarrow> bool" where
  "is_email_part part =
     (CHR ''@'' \<in> set part \<and> CHR ''.'' \<in> set part
      \<and> CHR ''@'' \<in> set (email_candidate part)
      \<and> CHR ''.'' \<in> set (split_on CHR ''@'' (email_candidate part) ! 1))"

definition extract_email :: "string \<Rightarrow> string option \<times> string" where
  "extract_email aff =
     (case List.find is_email_part (py_split aff) of
        Some part \<Rightarrow> (Some (email_candidate part), strip (remove_all part aff))
      | None \<Rightarrow> (None, aff))"

definition corresponding_terms :: "string list" where
  "corresponding_terms = [''corresponding'', ''correspondence'', ''whom correspondence'']"

text \<open>
  \<open>parse_author\<close>. The Python value of \<open>is_corresponding\<close> is only ever tested for truth, so the
  model keeps its truth value.
\<close>

definition parse_author :: "string list \<Rightarrow> string list \<Rightarrow> author_data \<Rightarrow> py_error + Author" where
  "parse_author ACADEMIC_KEYWORDS COMPANY_KEYWORDS ad =
     (let nm = (case ad_name ad of None \<Rightarrow> [] | Some n \<Rightarrow> n);
          nm = (if nm = [] then ''Unknown Author'' else nm)
      in case (case ad_AffiliationInfo ad of
                 None \<Rightarrow> Inr None
               | Some infos \<Rightarrow>
                   (case collect_affiliation_info infos of
                      Inl e \<Rightarrow> Inl e
                    | Inr affs \<Rightarrow> Inr (if affs \<noteq> [] then Some (join ''; '' affs) else None))) of
           Inl e \<Rightarrow> Inl e
         | Inr aff0 \<Rightarrow>
            (let aff1 =
                   (if truthy aff0 then aff0
                    else case ad_affiliation ad of
                           AffiliationList xs \<Rightarrow>
                             (let affs = map strip (filter (\<lambda>a. a \<noteq> [] \<and> strip a \<noteq> []) xs)
                              in if affs \<noteq> [] then Some (join ''; '' affs) else aff0)
                         | AffiliationStr x \<Rightarrow> Some (strip x)
                         | AffiliationOther \<Rightarrow> aff0);
                 (em, aff2) =
                   (if truthy aff1
                    then (case extract_email (the aff1) of (e, a) \<Rightarrow> (e, Some a))
                    else (None, aff1));
                 corr =
                   (truthy em
                    \<or> (truthy aff2
                        \<and> list_ex (\<lambda>term. py_in term (lower (the aff2))) corresponding_terms)
                    \<or> (case ad_is_corresponding ad of None \<Rightarrow> False | Some b \<Rightarrow> b))
             in Inr (mk_Author ACADEMIC_KEYWORDS COMPANY_KEYWORDS nm aff2 em corr False None)))"

text \<open>
  A raw paper record: \<open>uid\<close> after \<open>str(...)\<close>, \<open>title\<close>, \<open>pubdate\<close> and \<open>abstract\<close> as strings,
  \<open>None\<close> for a missing key.
\<close>

record paper_data =
  pd_uid :: "string option"
  pd_title :: "string option"
  pd_pubdate :: "string option"
  pd_authors :: "author_data list"
  pd_abstract :: "string option"

definition get_or_empty :: "string option \<Rightarrow> string" where
  "get_or_empty v = (case v of None \<Rightarrow> [] | Some x \<Rightarrow> x)"

text \<open>The author loop: an author whose parsing raises is skipped.\<close>

definition parse_authors :: "string list \<Rightarrow> string list \<Rightarrow> author_data list \<Rightarrow> Author list" where
  "parse_authors ACADEMIC_KEYWORDS COMPANY_KEYWORDS ads =
     List.map_filter
       (\<lambda>ad. case parse_author ACADEMIC_KEYWORDS COMPANY_KEYWORDS ad of
                Inl e \<Rightarrow> None | Inr a \<Rightarrow> Some a)
       ads"

text \<open>\<open>parse_paper\<close>: \<open>None\<close> is returned for a missing title or id, and by the outer handler
  for any exception that reaches it.\<close>

definition parse_paper ::
  "(string \<Rightarrow> string \<Rightarrow> py_error + date) \<Rightarrow> string list \<Rightarrow> string list \<Rightarrow> paper_data
     \<Rightarrow> Paper option" where
  "parse_paper strptime ACADEMIC_KEYWORDS COMPANY_KEYWORDS pd =
     (let pid = get_or_empty (pd_uid pd);
          ttl = strip (get_or_empty (pd_title pd))
      in if ttl = [] \<or> pid = [] then None
         else
           (let pub_date_str = get_or_empty (pd_pubdate pd)
            in case (if pub_date_str = [] then Inr default_date
                     else parse_date strptime pub_date_str) of
                 Inl e \<Rightarrow> None
               | Inr pub_date \<Rightarrow>
                   Some \<lparr>pubmed_id = pid, title = ttl, publication_date = pub_date,
                         authors = parse_authors ACADEMIC_KEYWORDS COMPANY_KEYWORDS (pd_authors pd),
                         abstract = Some (get_or_empty (pd_abstract pd))\<rparr>))"

text \<open>
  A model of \<open>datetime.strptime(s, fmt).date()\<close> for the two formats the parser uses, in the
  C locale: three fields separated by \<open>-\<close>; a year of four digits; a month of one or two
  digits (\<open>%m\<close>) or an abbreviated English month name in any case (\<open>%b\<close>); a day of one or two
  digits; and the date must exist in the calendar.
\<close>

definition digit_value :: "char \<Rightarrow> nat option" where
  "digit_value c = map_of (zip ''0123456789'' [0, 1, 2, 3, 4, 5, 6, 7, 8, 9]) c"

fun number_value :: "string \<Rightarrow> nat option" where
  "number_value [] = None"
| "number_value s =
     fold (\<lambda>c acc. case (acc, digit_value c) of
                      (Some a, Some d) \<Rightarrow> Some (10 * a + d) | _ \<Rightarrow> None)
          s (Some 0)"

definition month_names :: "string list" where
  "month_names = [''jan'', ''feb'', ''mar'', ''apr'', ''may'', ''jun'',
                  ''jul'', ''aug'', ''sep'', ''oct'', ''nov'', ''dec'']"

definition leap_year :: "nat \<Rightarrow> bool" where
  "leap_year y = (y mod 4 = 0 \<and> (y mod 100 \<noteq> 0 \<or> y mod 400 = 0))"

definition days_in_month :: "nat \<Rightarrow> nat \<Rightarrow> nat" where
  "days_in_month y m =
     (if m = 2 then (if leap_year y then 29 else 28)
      else if m \<in> {4, 6, 9, 11} then 30 else 31)"

definition year_field :: "string \<Rightarrow> nat option" where
  "year_field f = (if length f = 4 then number_value f else None)"

definition month_field :: "string \<Rightarrow> string \<Rightarrow> nat option" where
  "month_field fmt f =
     (if fmt = ''%Y-%m-%d''
      then (case number_value f of
              Some m \<Rightarrow> if length f \<le> 2 \<and> 1 \<le> m \<and> m \<le> 12 then Some m else None
            | None \<Rightarrow> None)
      else (case List.find (\<lambda>(i, nm). nm = lower f)
                   (zip [1, 2, 3, 4, 5, 6, 7, 8, 9, 10, 11, 12] month_names) of
              Some (i, nm) \<Rightarrow> Some i
            | None \<Rightarrow> None))"

definition day_field :: "string \<Rightarrow> nat option" where
  "day_field f =
     (case number_value (if length f = 2 \<and> hd f = CHR '' '' then tl f else f) of
        Some d \<Rightarrow> if length f \<le> 2 \<and> 1 \<le> d \<and> d \<le> 31 then Some d else None
      | None \<Rightarrow> None)"

definition strptime_date :: "string \<Rightarrow> string \<Rightarrow> py_error + date" where
  "strptime_date s fmt =
     (case split_on CHR ''-'' s of
        [fy, fm, fd] \<Rightarrow>
          (case (year_field fy, month_field fmt fm, day_field fd) of
             (Some y, Some m, Some d) \<Rightarrow>
               if 1 \<le> y \<and> d \<le> days_in_month y m
               then Inr \<lparr>year = y, month = m, day = d\<rparr>
               else Inl ValueError
           | _ \<Rightarrow> Inl ValueError)
      | _ \<Rightarrow> Inl ValueError)"

section \<open>Reference notions for the claims\<close>




text \<open>\<open>t\<close> is a whole token of \<open>s\<close>: a non-empty run without white space, bounded on each
  side by white space or by an end of \<open>s\<close>.\<close>

definition is_token :: "string \<Rightarrow> string \<Rightarrow> bool" where
  "is_token t s =
     (t \<noteq> [] \<and> (\<forall>c \<in> set t. \<not> is_space c) \<and>
      (\<exists>pre post. s = pre @ t @ post
         \<and> (pre = [] \<or> is_space (last pre)) \<and> (post = [] \<or> is_space (hd post))))"

text \<open>The same while \<open>split_acc\<close> is in the middle of a token: \<open>cur\<close> is the part of the
  running token already read and \<open>s\<close> the text still to read.\<close>

definition tok_in :: "string \<Rightarrow> string \<Rightarrow> string \<Rightarrow> bool" where
  "tok_in cur s t =
     (t \<noteq> [] \<and> (\<forall>c \<in> set t. \<not> is_space c) \<and>
      ((\<exists>post. cur @ s = t @ post \<and> length cur \<le> length t \<and> (post = [] \<or> is_space (hd post)))
       \<or> (\<exists>pre post. s = pre @ t @ post \<and> pre \<noteq> [] \<and> is_space (last pre)
             \<and> (post = [] \<or> is_space (hd post)))))"

section \<open>Example records\<close>

text \<open>A paper whose authors were given their derived fields by the caller (their
  affiliation is \<open>None\<close>, so the constructor leaves the fields as they are).\<close>

definition example_paper :: Paper where
  "example_paper =
     \<lparr>pubmed_id = ''12345'', title = ''Test Paper'',
      publication_date = \<lparr>year = 2023, month = 1, day = 1\<rparr>,
      authors =
        [\<lparr>name = ''John Doe'', affiliation = None, email = None, is_corresponding = True,
          is_non_academic = False, company_name = None\<rparr>,
         \<lparr>name = ''Jane Smith'', affiliation = None, email = Some ''jane@pfizer.com'',
          is_corresponding = False, is_non_academic = True, company_name = Some ''Pfizer Inc''\<rparr>,
         \<lparr>name = ''Bob Wilson'', affiliation = None, email = None, is_corresponding = False,
          is_non_academic = True, company_name = Some ''Novartis''\<rparr>,
         \<lparr>name = ''Ann Lee'', affiliation = None, email = None, is_corresponding = False,
          is_non_academic = True, company_name = Some ''Pfizer Inc''\<rparr>],
      abstract = None\<rparr>"

definition example_paper_corresponding :: Paper where
  "example_paper_corresponding =
     \<lparr>pubmed_id = ''2'', title = ''Second Paper'',
      publication_date = \<lparr>year = 2023, month = 1, day = 1\<rparr>,
      authors =
        [\<lparr>name = ''B'', affiliation = None, email = Some ''b@x.org'', is_corresponding = False,
          is_non_academic = False, company_name = None\<rparr>,
         \<lparr>name = ''C'', affiliation = None, email = Some ''c@y.org'', is_corresponding = True,
          is_non_academic = False, company_name = None\<rparr>],
      abstract = None\<rparr>"

definition example_paper_no_email :: Paper where
  "example_paper_no_email =
     \<lparr>pubmed_id = ''3'', title = ''Third Paper'',
      publication_date = \<lparr>year = 2023, month = 1, day = 1\<rparr>,
      authors =
        [\<lparr>name = ''D'', affiliation = None, email = None, is_corresponding = True,
          is_non_academic = False, company_name = None\<rparr>,
         \<lparr>name = ''E'', affiliation = None, email = Some [], is_corresponding = False,
          is_non_academic = False, company_name = None\<rparr>],
      abstract = None\<rparr>"

text \<open>A raw paper record with a date that no format accepts and one malformed author.\<close>

definition example_paper_data :: paper_data where
  "example_paper_data =
     \<lparr>pd_uid = Some ''40053389'', pd_title = Some ''  A trial  '',
      pd_pubdate = Some ''2023-13-45'',
      pd_authors =
        [\<lparr>ad_name = Some ''Jane Smith'', ad_AffiliationInfo = None,
          ad_affiliation = AffiliationStr ''Pfizer Inc'', ad_is_corresponding = None\<rparr>,
         \<lparr>ad_name = Some ''Bad Record'',
          ad_AffiliationInfo = Some [InfoDict (Some AffNoText)],
          ad_affiliation = AffiliationOther, ad_is_corresponding = None\<rparr>],
      pd_abstract = None\<rparr>"

section \<open>Facts about the string operations\<close>

subsection \<open>Substring test and \<open>find\<close>\<close>

lemma py_in_iff_sublist: "py_in k s \<longleftrightarrow> sublist k s"
  by (induction s) (auto simp: sublist_Cons_right)














subsection \<open>The tokens of \<open>split()\<close>\<close>

lemma tok_in_Nil: "tok_in cur [] t \<longleftrightarrow> t = cur \<and> cur \<noteq> [] \<and> (\<forall>c \<in> set cur. \<not> is_space c)"
  by (auto simp: tok_in_def append_eq_append_conv2)

lemma tok_in_space:
  assumes sp: "is_space c" and cur: "\<forall>x \<in> set cur. \<not> is_space x"
  shows "tok_in cur (c # s) t \<longleftrightarrow> (t = cur \<and> cur \<noteq> []) \<or> tok_in [] s t"
proof
  assume L: "tok_in cur (c # s) t"
  then have t: "t \<noteq> []" "\<forall>x \<in> set t. \<not> is_space x" by (auto simp: tok_in_def)
  from L consider
    (a) post where "cur @ c # s = t @ post" "length cur \<le> length t"
  | (b) pre post where "c # s = pre @ t @ post" "pre \<noteq> []" "is_space (last pre)"
         "post = [] \<or> is_space (hd post)"
    unfolding tok_in_def by blast
  then show "(t = cur \<and> cur \<noteq> []) \<or> tok_in [] s t"
  proof cases
    case a
    then obtain r where r: "t = cur @ r" "r @ post = c # s"
      by (auto simp: append_eq_append_conv2)
    have "r = []"
    proof (rule ccontr)
      assume "r \<noteq> []"
      with r(2) have "hd r = c" by (cases r) auto
      with \<open>r \<noteq> []\<close> r(1) have "c \<in> set t" by (cases r) auto
      with t(2) sp show False by blast
    qed
    with r(1) t(1) show ?thesis by simp
  next
    case b
    then obtain pre' where pre': "pre = c # pre'" "s = pre' @ t @ post"
      by (cases pre) auto
    show ?thesis
    proof (cases "pre' = []")
      case True
      with pre'(2) b(4) t have "tok_in [] s t" unfolding tok_in_def by auto
      then show ?thesis ..
    next
      case False
      with pre'(1) b(3) have "is_space (last pre')" by simp
      with False pre'(2) b(4) t have "tok_in [] s t" unfolding tok_in_def by blast
      then show ?thesis ..
    qed
  qed
next
  assume R: "(t = cur \<and> cur \<noteq> []) \<or> tok_in [] s t"
  then show "tok_in cur (c # s) t"
  proof
    assume "t = cur \<and> cur \<noteq> []"
    then show ?thesis using sp cur unfolding tok_in_def by auto
  next
    assume T: "tok_in [] s t"
    then have t: "t \<noteq> []" "\<forall>x \<in> set t. \<not> is_space x" by (auto simp: tok_in_def)
    from T consider
      (a) post where "s = t @ post" "post = [] \<or> is_space (hd post)"
    | (b) pre post where "s = pre @ t @ post" "pre \<noteq> []" "is_space (last pre)"
         "post = [] \<or> is_space (hd post)"
      unfolding tok_in_def by auto
    then show ?thesis
    proof cases
      case a
      then have "c # s = [c] @ t @ post \<and> [c] \<noteq> [] \<and> is_space (last [c])"
        using sp by simp
      with a(2) t show ?thesis unfolding tok_in_def by blast
    next
      case b
      then have "c # s = (c # pre) @ t @ post \<and> c # pre \<noteq> [] \<and> is_space (last (c # pre))"
        by simp
      with b(4) t show ?thesis unfolding tok_in_def by blast
    qed
  qed
qed

lemma tok_in_nonspace:
  assumes ns: "\<not> is_space c"
  shows "tok_in cur (c # s) t \<longleftrightarrow> tok_in (cur @ [c]) s t"
proof
  assume L: "tok_in cur (c # s) t"
  then have t: "t \<noteq> []" "\<forall>x \<in> set t. \<not> is_space x" by (auto simp: tok_in_def)
  from L consider
    (a) post where "cur @ c # s = t @ post" "length cur \<le> length t"
         "post = [] \<or> is_space (hd post)"
  | (b) pre post where "c # s = pre @ t @ post" "pre \<noteq> []" "is_space (last pre)"
         "post = [] \<or> is_space (hd post)"
    unfolding tok_in_def by blast
  then show "tok_in (cur @ [c]) s t"
  proof cases
    case a
    then obtain r where r: "t = cur @ r" "r @ post = c # s"
      by (auto simp: append_eq_append_conv2)
    have "r \<noteq> []"
    proof
      assume "r = []"
      with r(2) have "post = c # s" by simp
      with a(3) ns show False by simp
    qed
    with r(1) have "length (cur @ [c]) \<le> length t" by (cases r) auto
    moreover from a(1) have "(cur @ [c]) @ s = t @ post" by simp
    ultimately show ?thesis using a(3) t unfolding tok_in_def by blast
  next
    case b
    then obtain pre' where pre': "pre = c # pre'" "s = pre' @ t @ post"
      by (cases pre) auto
    have "pre' \<noteq> []" using pre'(1) b(3) ns by auto
    moreover from this pre'(1) b(3) have "is_space (last pre')" by simp
    ultimately show ?thesis using pre'(2) b(4) t unfolding tok_in_def by blast
  qed
next
  assume R: "tok_in (cur @ [c]) s t"
  then have t: "t \<noteq> []" "\<forall>x \<in> set t. \<not> is_space x" by (auto simp: tok_in_def)
  from R consider
    (a) post where "(cur @ [c]) @ s = t @ post" "length (cur @ [c]) \<le> length t"
         "post = [] \<or> is_space (hd post)"
  | (b) pre post where "s = pre @ t @ post" "pre \<noteq> []" "is_space (last pre)"
         "post = [] \<or> is_space (hd post)"
    unfolding tok_in_def by blast
  then show "tok_in cur (c # s) t"
  proof cases
    case a
    then have "cur @ c # s = t @ post \<and> length cur \<le> length t" by simp
    with a(3) t show ?thesis unfolding tok_in_def by blast
  next
    case b
    then have "c # s = (c # pre) @ t @ post \<and> c # pre \<noteq> [] \<and> is_space (last (c # pre))"
      by simp
    with b(4) t show ?thesis unfolding tok_in_def by blast
  qed
qed

lemma split_acc_tok:
  "\<forall>x \<in> set cur. \<not> is_space x \<Longrightarrow> t \<in> set (split_acc cur s) \<longleftrightarrow> tok_in cur s t"
proof (induction s arbitrary: cur)
  case Nil
  then show ?case by (auto simp: tok_in_Nil)
next
  case (Cons c s)
  show ?case
  proof (cases "is_space c")
    case True
    then show ?thesis using Cons.prems Cons.IH[of "[]"]
      by (auto simp: tok_in_space)
  next
    case False
    then have "\<forall>x \<in> set (cur @ [c]). \<not> is_space x" using Cons.prems by auto
    from Cons.IH[OF this] False show ?thesis by (simp add: tok_in_nonspace)
  qed
qed

lemma tok_in_empty: "tok_in [] s t \<longleftrightarrow> is_token t s"
proof
  assume L: "tok_in [] s t"
  then have t: "t \<noteq> []" "\<forall>x \<in> set t. \<not> is_space x" by (auto simp: tok_in_def)
  from L consider
    (a) post where "s = [] @ t @ post" "post = [] \<or> is_space (hd post)"
  | (b) pre post where "s = pre @ t @ post" "pre \<noteq> []" "is_space (last pre)"
         "post = [] \<or> is_space (hd post)"
    unfolding tok_in_def by auto
  then show "is_token t s"
  proof cases
    case a
    with t show ?thesis unfolding is_token_def by blast
  next
    case b
    with t show ?thesis unfolding is_token_def by blast
  qed
next
  assume R: "is_token t s"
  then have t: "t \<noteq> []" "\<forall>x \<in> set t. \<not> is_space x" by (auto simp: is_token_def)
  from R obtain pre post where pp: "s = pre @ t @ post" "pre = [] \<or> is_space (last pre)"
    "post = [] \<or> is_space (hd post)"
    unfolding is_token_def by blast
  show "tok_in [] s t"
  proof (cases "pre = []")
    case True
    with pp have "[] @ s = t @ post \<and> length ([]::string) \<le> length t" by simp
    with pp(3) t show ?thesis unfolding tok_in_def by blast
  next
    case False
    with pp t show ?thesis unfolding tok_in_def by blast
  qed
qed

lemma py_split_tokens: "t \<in> set (py_split s) \<longleftrightarrow> is_token t s"
  by (simp add: py_split_def split_acc_tok tok_in_empty)

section \<open>The classifier\<close>

subsection \<open>What \<open>__post_init__\<close> changes\<close>

lemma post_init_falsy: "\<not> truthy (affiliation self) \<Longrightarrow> post_init A C self = self"
  by (simp add: post_init_def)

lemma post_init_truthy_flag:
  "truthy (affiliation self) \<Longrightarrow>
     is_non_academic (post_init A C self) = check_non_academic_affiliation A C self"
  by (simp add: post_init_def Let_def)

lemma post_init_truthy_company:
  "truthy (affiliation self) \<Longrightarrow>
     company_name (post_init A C self) =
       (if check_non_academic_affiliation A C self
        then extract_company_name C
               (self\<lparr>is_non_academic := check_non_academic_affiliation A C self\<rparr>)
        else company_name self)"
  by (simp add: post_init_def Let_def)

lemma post_init_frame:
  "name (post_init A C self) = name self"
  "affiliation (post_init A C self) = affiliation self"
  "email (post_init A C self) = email self"
  "is_corresponding (post_init A C self) = is_corresponding self"
  by (simp_all add: post_init_def Let_def)

lemma extract_company_name_None_iff:
  "truthy (affiliation self) \<Longrightarrow> is_non_academic self \<Longrightarrow>
     extract_company_name C self = None \<longleftrightarrow> kept_parts (the (affiliation self)) = []"
  by (simp add: extract_company_name_def Let_def split: option.splits)

subsection \<open>Absent and empty affiliations\<close>

text \<open>
  Claim C10. When the affiliation is \<open>None\<close> or the empty string, \<open>__post_init__\<close> does no
  classification: the constructor returns the six fields exactly as supplied, whatever
  values were given for \<open>is_non_academic\<close> and \<open>company_name\<close>.
\<close>

theorem falsy_affiliation_passes_through:
  "aff = None \<or> aff = Some [] \<Longrightarrow>
     mk_Author A C nm aff em corr nonacad cname =
       \<lparr>name = nm, affiliation = aff, email = em, is_corresponding = corr,
        is_non_academic = nonacad, company_name = cname\<rparr>"
  by (auto simp: mk_Author_def post_init_falsy)

text \<open>
  An instance: an empty affiliation, \<open>is_non_academic = False\<close> and a company name given by
  the caller. The constructed author is not non-academic and still carries the name.
\<close>

theorem falsy_affiliation_passes_through_witness:
  "is_non_academic
     (mk_Author ACADEMIC_KEYWORDS_named COMPANY_KEYWORDS_named ''J Doe'' (Some [])
        None False False (Some ''Acme Ltd'')) = False
   \<and> company_name
     (mk_Author ACADEMIC_KEYWORDS_named COMPANY_KEYWORDS_named ''J Doe'' (Some [])
        None False False (Some ''Acme Ltd'')) = Some ''Acme Ltd''"
  using falsy_affiliation_passes_through
    [of "Some []" ACADEMIC_KEYWORDS_named COMPANY_KEYWORDS_named "''J Doe''" None False False
        "Some ''Acme Ltd''"]
  by simp

text \<open>
  Claim C4. For an affiliation that is \<open>None\<close> or the empty string, the two classifier
  methods return \<open>False\<close> and \<open>None\<close>, whatever the other fields hold, and an author
  constructed with the default derived fields has \<open>is_non_academic = False\<close> and
  \<open>company_name = None\<close>. Both methods test the affiliation before any string operation,
  so no operation that could raise is reached; the model has no error value on this path.
\<close>

theorem empty_affiliation_default:
  "aff = None \<or> aff = Some [] \<Longrightarrow>
     check_non_academic_affiliation A C (self\<lparr>affiliation := aff\<rparr>) = False
     \<and> extract_company_name C (self\<lparr>affiliation := aff\<rparr>) = None
     \<and> is_non_academic (mk_Author A C nm aff em corr False None) = False
     \<and> company_name (mk_Author A C nm aff em corr False None) = None"
  by (auto simp: check_non_academic_affiliation_def extract_company_name_def mk_Author_def
      post_init_falsy)

text \<open>An instance with the affiliation \<open>None\<close>.\<close>

theorem empty_affiliation_default_witness:
  "check_non_academic_affiliation ACADEMIC_KEYWORDS_named COMPANY_KEYWORDS_named
       (\<lparr>name = ''J Doe'', affiliation = Some ''Pfizer Inc'', email = None,
         is_corresponding = False, is_non_academic = True,
         company_name = Some ''Pfizer Inc''\<rparr>\<lparr>affiliation := None\<rparr>) = False
   \<and> extract_company_name COMPANY_KEYWORDS_named
       (\<lparr>name = ''J Doe'', affiliation = Some ''Pfizer Inc'', email = None,
         is_corresponding = False, is_non_academic = True,
         company_name = Some ''Pfizer Inc''\<rparr>\<lparr>affiliation := None\<rparr>) = None
   \<and> is_non_academic
       (mk_Author ACADEMIC_KEYWORDS_named COMPANY_KEYWORDS_named ''J Doe'' None None False
          False None) = False
   \<and> company_name
       (mk_Author ACADEMIC_KEYWORDS_named COMPANY_KEYWORDS_named ''J Doe'' None None False
          False None) = None"
  using empty_affiliation_default
    [of None ACADEMIC_KEYWORDS_named COMPANY_KEYWORDS_named
        "\<lparr>name = ''J Doe'', affiliation = Some ''Pfizer Inc'', email = None,
          is_corresponding = False, is_non_academic = True,
          company_name = Some ''Pfizer Inc''\<rparr>" "''J Doe''" None False]
  by simp

subsection \<open>Company name and classification\<close>

text \<open>
  Claim C1, as stated, fails: for the affiliation \<open>Intel Corp\<close> the token \<open>corp\<close> makes the
  author non-academic, but the only comma segment contains the noise word \<open>tel\<close>, so every
  segment is discarded and \<open>company_name\<close> is \<open>None\<close>.
\<close>

theorem company_name_iff_counterexample:
  "is_non_academic
     (mk_Author ACADEMIC_KEYWORDS_named COMPANY_KEYWORDS_named ''J Doe'' (Some ''Intel Corp'')
        None False False None)
   \<and> company_name
     (mk_Author ACADEMIC_KEYWORDS_named COMPANY_KEYWORDS_named ''J Doe'' (Some ''Intel Corp'')
        None False False None) = None"
  by code_simp

text \<open>
  Claim C1, amended. For an author constructed with the default derived fields: a
  \<open>company_name\<close> other than \<open>None\<close> implies \<open>is_non_academic\<close>; and when \<open>is_non_academic\<close>
  holds, \<open>company_name\<close> is other than \<open>None\<close> exactly when some comma segment of the
  affiliation is non-empty after trimming and free of noise words.
\<close>

theorem company_name_vs_is_non_academic:
  "(company_name (mk_Author A C nm aff em corr False None) \<noteq> None
      \<longrightarrow> is_non_academic (mk_Author A C nm aff em corr False None))
   \<and> (is_non_academic (mk_Author A C nm aff em corr False None)
      \<longrightarrow> (company_name (mk_Author A C nm aff em corr False None) \<noteq> None
           \<longleftrightarrow> kept_parts (the aff) \<noteq> []))"
proof (cases "truthy aff")
  case False
  then show ?thesis by (simp add: mk_Author_def post_init_falsy)
next
  case True
  then show ?thesis
    by (simp add: mk_Author_def post_init_truthy_flag post_init_truthy_company
        extract_company_name_None_iff)
qed

text \<open>An instance where a segment survives the filter.\<close>

theorem company_name_vs_is_non_academic_witness:
  "is_non_academic
     (mk_Author ACADEMIC_KEYWORDS_named COMPANY_KEYWORDS_named ''J Doe''
        (Some ''Research Division, Pfizer Inc'') None False False None)
   \<and> kept_parts (the (Some ''Research Division, Pfizer Inc'')) \<noteq> []
   \<and> company_name
     (mk_Author ACADEMIC_KEYWORDS_named COMPANY_KEYWORDS_named ''J Doe''
        (Some ''Research Division, Pfizer Inc'') None False False None) \<noteq> None"
proof -
  have h1: "is_non_academic
     (mk_Author ACADEMIC_KEYWORDS_named COMPANY_KEYWORDS_named ''J Doe''
        (Some ''Research Division, Pfizer Inc'') None False False None)"
    by code_simp
  have h2: "kept_parts (the (Some ''Research Division, Pfizer Inc'')) \<noteq> []"
    by code_simp
  from h1 h2 company_name_vs_is_non_academic
    [of ACADEMIC_KEYWORDS_named COMPANY_KEYWORDS_named "''J Doe''"
        "Some ''Research Division, Pfizer Inc''" None False]
  show ?thesis by blast
qed

text \<open>
  The affiliation \<open>Pfizer Inc., Research Division\<close> under any keyword tables: the company
  test succeeds only through a keyword equal to one of the four tokens, of which the
  second keeps its comma, or through a keyword bounded by spaces; and whenever the author
  is classified as non-academic, the extracted company name is \<open>Pfizer Inc\<close>.
\<close>

lemma pfizer_kept_parts: "kept_parts ''Pfizer Inc., Research Division'' = [''Pfizer Inc.'']"
  by code_simp

lemma pfizer_clean: "clean_company_name ''Pfizer Inc.'' = ''Pfizer Inc''"
  by code_simp

lemma pfizer_company_name_any_tables:
  "company_name (mk_Author A C nm (Some ''Pfizer Inc., Research Division'') em corr False None)
     = (if is_non_academic
             (mk_Author A C nm (Some ''Pfizer Inc., Research Division'') em corr False None)
        then Some ''Pfizer Inc'' else None)"
  by (simp add: mk_Author_def post_init_truthy_flag post_init_truthy_company
      extract_company_name_def pfizer_kept_parts pfizer_clean Let_def split: option.splits)

lemma pfizer_needs_other_keyword:
  "has_company C (lower ''Pfizer Inc., Research Division'')
     \<longleftrightarrow> (\<exists>k \<in> set C. k \<in> {''pfizer'', ''inc,'', ''research'', ''division''}
                       \<or> sublist ('' '' @ k @ '' '') '' pfizer inc., research division '')"
proof -
  have l: "lower ''Pfizer Inc., Research Division'' = ''pfizer inc., research division''"
    by code_simp
  have t: "py_split (remove_dots ''pfizer inc., research division'')
             = [''pfizer'', ''inc,'', ''research'', ''division'']"
    by code_simp
  show ?thesis
    unfolding has_company_def l t list_ex_iff py_in_iff_sublist by simp
qed


subsection \<open>Both keyword classes match\<close>



subsection \<open>How keywords are matched\<close>

text \<open>
  Claim C2, as stated, fails for the academic table: in \<open>Preschoolers Inc\<close> the keyword
  \<open>school\<close> is neither a token nor bounded by spaces, it only occurs inside the word
  \<open>preschoolers\<close>, and yet the academic test succeeds. Together with the company token
  \<open>inc\<close> both classes match, the academic keyword comes first (offset 3 against 13), and
  the author is classified as academic.
\<close>

theorem keyword_inside_word_counterexample:
  "has_academic ACADEMIC_KEYWORDS_named (lower ''Preschoolers Inc'')
   \<and> ''school'' \<notin> set (py_split (lower ''Preschoolers Inc''))
   \<and> \<not> py_in '' school '' ('' '' @ lower ''Preschoolers Inc'' @ '' '')
   \<and> \<not> list_ex (\<lambda>k. k \<in> set (py_split (lower ''Preschoolers Inc''))
                     \<or> py_in ('' '' @ k @ '' '') ('' '' @ lower ''Preschoolers Inc'' @ '' ''))
            ACADEMIC_KEYWORDS_named
   \<and> has_company COMPANY_KEYWORDS_named (lower ''Preschoolers Inc'')
   \<and> \<not> is_non_academic
        (mk_Author ACADEMIC_KEYWORDS_named COMPANY_KEYWORDS_named ''J Doe''
           (Some ''Preschoolers Inc'') None False False None)"
  by code_simp

text \<open>
  Claim C2, amended. On the lower-cased text, an academic keyword matches when it occurs
  anywhere as a substring (also inside a longer word); a company keyword matches when it
  is a whole white-space token of the text with its periods removed, or when it occurs
  bounded by a space on each side in the text padded with one space at each end.
\<close>

theorem keyword_matching:
  "(has_academic A low \<longleftrightarrow> (\<exists>k \<in> set A. sublist k low))
   \<and> (has_company C low \<longleftrightarrow>
        (\<exists>k \<in> set C. is_token k (remove_dots low)
                     \<or> sublist ('' '' @ k @ '' '') ('' '' @ low @ '' '')))"
  by (simp add: has_academic_def has_company_def list_ex_iff py_in_iff_sublist py_split_tokens)

text \<open>An instance, on the text of the counterexample.\<close>

theorem keyword_matching_witness:
  "has_academic ACADEMIC_KEYWORDS_named (lower ''Preschoolers Inc'')
   \<and> (\<exists>k \<in> set ACADEMIC_KEYWORDS_named. sublist k (lower ''Preschoolers Inc''))
   \<and> has_company COMPANY_KEYWORDS_named (lower ''Preschoolers Inc'')
   \<and> (\<exists>k \<in> set COMPANY_KEYWORDS_named.
         is_token k (remove_dots (lower ''Preschoolers Inc''))
         \<or> sublist ('' '' @ k @ '' '') ('' '' @ lower ''Preschoolers Inc'' @ '' ''))"
proof -
  have h1: "has_academic ACADEMIC_KEYWORDS_named (lower ''Preschoolers Inc'')" by code_simp
  have h2: "has_company COMPANY_KEYWORDS_named (lower ''Preschoolers Inc'')" by code_simp
  from h1 h2 keyword_matching
    [of ACADEMIC_KEYWORDS_named "lower ''Preschoolers Inc''" COMPANY_KEYWORDS_named]
  show ?thesis by blast
qed

section \<open>The views of a paper\<close>

text \<open>
  Claim C7. \<open>company_affiliations\<close> holds exactly the company names, other than \<open>None\<close>, of
  the non-academic authors, in strictly ascending order (so sorted and free of
  duplicates).
\<close>

theorem company_affiliations_sorted_unique:
  "set (company_affiliations p)
     = {c. \<exists>a \<in> set (authors p). is_non_academic a \<and> company_name a = Some c}
   \<and> sorted_wrt (<) (company_affiliations p)"
proof -
  have "set (company_affiliations p)
     = {c. \<exists>a \<in> set (authors p). is_non_academic a \<and> company_name a = Some c}"
    by (force simp: company_affiliations_def non_academic_authors_def image_iff)
  moreover have "sorted_wrt (<) (company_affiliations p)"
    by (simp add: company_affiliations_def)
  ultimately show ?thesis by blast
qed

text \<open>An instance: two authors share a company, and the names come out sorted.\<close>

theorem company_affiliations_sorted_unique_witness:
  "company_affiliations example_paper = [''Novartis'', ''Pfizer Inc'']
   \<and> {c. \<exists>a \<in> set (authors example_paper). is_non_academic a \<and> company_name a = Some c}
       = {''Novartis'', ''Pfizer Inc''}"
proof -
  have h: "company_affiliations example_paper = [''Novartis'', ''Pfizer Inc'']"
    by code_simp
  from company_affiliations_sorted_unique [of example_paper] h
  show ?thesis by simp
qed

text \<open>
  Claim C6, as stated, fails: the code skips an email that is the empty string, which is
  not \<open>None\<close>. Here the first author is corresponding and has the email \<open>""\<close>; the claim
  asks for that email, the code returns the email of the second author.
\<close>

theorem corresponding_author_email_counterexample:
  "is_corresponding (hd (authors
      \<lparr>pubmed_id = ''1'', title = ''T'', publication_date = default_date,
       authors =
         [\<lparr>name = ''A'', affiliation = None, email = Some [], is_corresponding = True,
           is_non_academic = False, company_name = None\<rparr>,
          \<lparr>name = ''B'', affiliation = None, email = Some ''b@x.org'', is_corresponding = False,
           is_non_academic = False, company_name = None\<rparr>],
       abstract = None\<rparr>))
   \<and> email (hd (authors
      \<lparr>pubmed_id = ''1'', title = ''T'', publication_date = default_date,
       authors =
         [\<lparr>name = ''A'', affiliation = None, email = Some [], is_corresponding = True,
           is_non_academic = False, company_name = None\<rparr>,
          \<lparr>name = ''B'', affiliation = None, email = Some ''b@x.org'', is_corresponding = False,
           is_non_academic = False, company_name = None\<rparr>],
       abstract = None\<rparr>)) = Some []
   \<and> corresponding_author_email
      \<lparr>pubmed_id = ''1'', title = ''T'', publication_date = default_date,
       authors =
         [\<lparr>name = ''A'', affiliation = None, email = Some [], is_corresponding = True,
           is_non_academic = False, company_name = None\<rparr>,
          \<lparr>name = ''B'', affiliation = None, email = Some ''b@x.org'', is_corresponding = False,
           is_non_academic = False, company_name = None\<rparr>],
       abstract = None\<rparr> = Some ''b@x.org''"
  by (simp add: corresponding_author_email_def)

text \<open>
  Claim C6, amended: ``has an email'' means an email that is neither \<open>None\<close> nor empty.
  \<open>corresponding_author_email\<close> returns the email of the first author, in list order, that
  is corresponding and has an email; if there is none, the email of the first author that
  has an email; and \<open>None\<close> if no author has an email.
\<close>

theorem corresponding_author_email_first:
  "(authors p = pre @ a # post \<and> is_corresponding a \<and> truthy (email a)
      \<and> (\<forall>b \<in> set pre. \<not> (is_corresponding b \<and> truthy (email b)))
      \<longrightarrow> corresponding_author_email p = email a)
   \<and> ((\<forall>b \<in> set (authors p). \<not> (is_corresponding b \<and> truthy (email b)))
      \<and> authors p = pre @ a # post \<and> truthy (email a)
      \<and> (\<forall>b \<in> set pre. \<not> truthy (email b))
      \<longrightarrow> corresponding_author_email p = email a)
   \<and> ((\<forall>b \<in> set (authors p). \<not> truthy (email b))
      \<longrightarrow> corresponding_author_email p = None)"
proof (intro conjI impI)
  assume h: "authors p = pre @ a # post \<and> is_corresponding a \<and> truthy (email a)
      \<and> (\<forall>b \<in> set pre. \<not> (is_corresponding b \<and> truthy (email b)))"
  then have "List.find (\<lambda>x. is_corresponding x \<and> truthy (email x)) (authors p) = Some a"
    by (auto simp: find_Some_iff nth_append intro!: exI[of _ "length pre"])
  then show "corresponding_author_email p = email a"
    by (simp add: corresponding_author_email_def)
next
  assume h: "(\<forall>b \<in> set (authors p). \<not> (is_corresponding b \<and> truthy (email b)))
      \<and> authors p = pre @ a # post \<and> truthy (email a)
      \<and> (\<forall>b \<in> set pre. \<not> truthy (email b))"
  then have "\<not> (\<exists>x. x \<in> set (authors p) \<and> is_corresponding x \<and> truthy (email x))"
    by blast
  then have "List.find (\<lambda>x. is_corresponding x \<and> truthy (email x)) (authors p) = None"
    by (simp add: find_None_iff)
  moreover from h have "List.find (\<lambda>x. truthy (email x)) (authors p) = Some a"
    by (auto simp: find_Some_iff nth_append intro!: exI[of _ "length pre"])
  ultimately show "corresponding_author_email p = email a"
    by (simp add: corresponding_author_email_def)
next
  assume h: "\<forall>b \<in> set (authors p). \<not> truthy (email b)"
  then have "List.find (\<lambda>x. is_corresponding x \<and> truthy (email x)) (authors p) = None"
    "List.find (\<lambda>x. truthy (email x)) (authors p) = None"
    by (simp_all add: find_None_iff)
  then show "corresponding_author_email p = None"
    by (simp add: corresponding_author_email_def)
qed

text \<open>Instances of the three cases.\<close>

theorem corresponding_author_email_first_witness:
  "corresponding_author_email example_paper_corresponding = Some ''c@y.org''
   \<and> corresponding_author_email example_paper = Some ''jane@pfizer.com''
   \<and> corresponding_author_email example_paper_no_email = None"
proof -
  let ?b = "\<lparr>name = ''B'', affiliation = None, email = Some ''b@x.org'',
             is_corresponding = False, is_non_academic = False, company_name = None\<rparr>"
  let ?c = "\<lparr>name = ''C'', affiliation = None, email = Some ''c@y.org'',
             is_corresponding = True, is_non_academic = False, company_name = None\<rparr>"
  let ?john = "\<lparr>name = ''John Doe'', affiliation = None, email = None,
             is_corresponding = True, is_non_academic = False, company_name = None\<rparr>"
  let ?jane = "\<lparr>name = ''Jane Smith'', affiliation = None, email = Some ''jane@pfizer.com'',
             is_corresponding = False, is_non_academic = True,
             company_name = Some ''Pfizer Inc''\<rparr>"
  let ?rest = "[\<lparr>name = ''Bob Wilson'', affiliation = None, email = None,
             is_corresponding = False, is_non_academic = True,
             company_name = Some ''Novartis''\<rparr>,
            \<lparr>name = ''Ann Lee'', affiliation = None, email = None,
             is_corresponding = False, is_non_academic = True,
             company_name = Some ''Pfizer Inc''\<rparr>]"
  have h1: "authors example_paper_corresponding = [?b] @ ?c # [] \<and> is_corresponding ?c
      \<and> truthy (email ?c) \<and> (\<forall>x \<in> set [?b]. \<not> (is_corresponding x \<and> truthy (email x)))"
    by (simp add: example_paper_corresponding_def)
  have h2: "(\<forall>x \<in> set (authors example_paper). \<not> (is_corresponding x \<and> truthy (email x)))
      \<and> authors example_paper = [?john] @ ?jane # ?rest \<and> truthy (email ?jane)
      \<and> (\<forall>x \<in> set [?john]. \<not> truthy (email x))"
    by (simp add: example_paper_def)
  have h3: "\<forall>x \<in> set (authors example_paper_no_email). \<not> truthy (email x)"
    by (simp add: example_paper_no_email_def)
  from h1 corresponding_author_email_first
    [of example_paper_corresponding "[?b]" ?c "[]"]
  have r1: "corresponding_author_email example_paper_corresponding = Some ''c@y.org''"
    by simp
  from h2 corresponding_author_email_first [of example_paper "[?john]" ?jane ?rest]
  have r2: "corresponding_author_email example_paper = Some ''jane@pfizer.com''"
    by simp
  from h3 corresponding_author_email_first [of example_paper_no_email]
  have r3: "corresponding_author_email example_paper_no_email = None"
    by blast
  from r1 r2 r3 show ?thesis by blast
qed

section \<open>The parser\<close>

lemma parse_date_default:
  "strptime s ''%Y-%m-%d'' = Inl ValueError \<Longrightarrow> strptime s ''%Y-%b-%d'' = Inl ValueError
     \<Longrightarrow> parse_date strptime s = Inr default_date"
  by (simp add: parse_date_def)

text \<open>
  Claim C8. When \<open>strptime\<close> rejects a date string under both formats, \<open>parse_date\<close> returns
  1900-01-01 and raises nothing; and a paper record with that date string is dropped by
  \<open>parse_paper\<close> only if its title or id is missing, and otherwise carries the date
  1900-01-01.
\<close>

theorem unparseable_date_defaults:
  assumes "strptime s ''%Y-%m-%d'' = Inl ValueError"
    and "strptime s ''%Y-%b-%d'' = Inl ValueError"
  shows "parse_date strptime s = Inr \<lparr>year = 1900, month = 1, day = 1\<rparr>
     \<and> (pd_pubdate pd = Some s \<longrightarrow>
          (parse_paper strptime A C pd = None
             \<longleftrightarrow> strip (get_or_empty (pd_title pd)) = [] \<or> get_or_empty (pd_uid pd) = [])
          \<and> (\<forall>p. parse_paper strptime A C pd = Some p
                 \<longrightarrow> publication_date p = \<lparr>year = 1900, month = 1, day = 1\<rparr>))"
proof -
  have d: "parse_date strptime s = Inr default_date"
    using assms by (rule parse_date_default)
  show ?thesis
    using d by (auto simp: parse_paper_def Let_def default_date_def get_or_empty_def)
qed

text \<open>An instance: month 13 and day 45 match neither format.\<close>

theorem unparseable_date_defaults_witness:
  "strptime_date ''2023-13-45'' ''%Y-%m-%d'' = Inl ValueError
   \<and> strptime_date ''2023-13-45'' ''%Y-%b-%d'' = Inl ValueError
   \<and> pd_pubdate example_paper_data = Some ''2023-13-45''
   \<and> parse_date strptime_date ''2023-13-45'' = Inr \<lparr>year = 1900, month = 1, day = 1\<rparr>
   \<and> map_option publication_date
        (parse_paper strptime_date ACADEMIC_KEYWORDS_named COMPANY_KEYWORDS_named
           example_paper_data)
       = Some \<lparr>year = 1900, month = 1, day = 1\<rparr>"
proof -
  have h1: "strptime_date ''2023-13-45'' ''%Y-%m-%d'' = Inl ValueError" by code_simp
  have h2: "strptime_date ''2023-13-45'' ''%Y-%b-%d'' = Inl ValueError" by code_simp
  have h3: "pd_pubdate example_paper_data = Some ''2023-13-45''"
    by (simp add: example_paper_data_def)
  have h4: "\<not> (strip (get_or_empty (pd_title example_paper_data)) = []
                \<or> get_or_empty (pd_uid example_paper_data) = [])"
    by code_simp
  note t = unparseable_date_defaults
    [where strptime = strptime_date and s = "''2023-13-45''" and pd = example_paper_data
       and A = ACADEMIC_KEYWORDS_named and C = COMPANY_KEYWORDS_named, OF h1 h2]
  from t h3 h4 obtain p where
    p: "parse_paper strptime_date ACADEMIC_KEYWORDS_named COMPANY_KEYWORDS_named
          example_paper_data = Some p"
    by blast
  with t h3 have "publication_date p = \<lparr>year = 1900, month = 1, day = 1\<rparr>" by blast
  with p t h1 h2 h3 show ?thesis by simp
qed

text \<open>What \<open>parse_author\<close> computes for \<open>is_corresponding\<close>: the third search term contains the
  second, so two terms decide.\<close>

lemma extract_email_truthy:
  "truthy (fst (extract_email aff)) \<longleftrightarrow> fst (extract_email aff) \<noteq> None"
proof (cases "List.find is_email_part (py_split aff)")
  case None
  then show ?thesis by (simp add: extract_email_def)
next
  case (Some part)
  then have "is_email_part part" by (auto simp: find_Some_iff)
  then have "email_candidate part \<noteq> []" by (auto simp: is_email_part_def)
  with Some show ?thesis by (simp add: extract_email_def)
qed

lemma corresponding_terms_match:
  "list_ex (\<lambda>term. py_in term s) corresponding_terms
     \<longleftrightarrow> sublist ''corresponding'' s \<or> sublist ''correspondence'' s"
proof -
  have "sublist ''correspondence'' ''whom correspondence''"
    unfolding sublist_def by (rule exI[of _ "''whom ''"], rule exI[of _ "[]"]) simp
  then have "sublist ''whom correspondence'' s \<Longrightarrow> sublist ''correspondence'' s"
    by (rule sublist_order.order_trans)
  then show ?thesis
    by (auto simp: corresponding_terms_def py_in_iff_sublist)
qed

lemma parse_author_is_corresponding:
  assumes "parse_author A C ad = Inr a"
  shows "is_corresponding a \<longleftrightarrow>
           email a \<noteq> None
           \<or> (truthy (affiliation a)
               \<and> (sublist ''corresponding'' (lower (the (affiliation a)))
                  \<or> sublist ''correspondence'' (lower (the (affiliation a)))))
           \<or> ad_is_corresponding ad = Some True"
proof -
  define info where "info =
    (case ad_AffiliationInfo ad of
       None \<Rightarrow> Inr None
     | Some infos \<Rightarrow>
         (case collect_affiliation_info infos of
            Inl e \<Rightarrow> Inl e
          | Inr affs \<Rightarrow> Inr (if affs \<noteq> [] then Some (join ''; '' affs) else None)))"
  from assms obtain aff0 where a0: "info = Inr aff0"
    unfolding parse_author_def Let_def info_def [symmetric]
    by (cases info) auto
  define aff1 where "aff1 =
    (if truthy aff0 then aff0
     else case ad_affiliation ad of
            AffiliationList xs \<Rightarrow>
              (let affs = map strip (filter (\<lambda>a. a \<noteq> [] \<and> strip a \<noteq> []) xs)
               in if affs \<noteq> [] then Some (join ''; '' affs) else aff0)
          | AffiliationStr x \<Rightarrow> Some (strip x)
          | AffiliationOther \<Rightarrow> aff0)"
  define ea where "ea =
    (if truthy aff1
     then (case extract_email (the aff1) of (e, a) \<Rightarrow> (e, Some a))
     else (None, aff1))"
  have t: "truthy (fst ea) \<longleftrightarrow> fst ea \<noteq> None"
    using extract_email_truthy [of "the aff1"]
    by (cases "extract_email (the aff1)") (simp add: ea_def)
  from assms a0 have
    "is_corresponding a =
        (truthy (fst ea)
         \<or> (truthy (snd ea)
             \<and> list_ex (\<lambda>term. py_in term (lower (the (snd ea)))) corresponding_terms)
         \<or> (case ad_is_corresponding ad of None \<Rightarrow> False | Some b \<Rightarrow> b))"
    "email a = fst ea" "affiliation a = snd ea"
    unfolding parse_author_def info_def [symmetric] ea_def aff1_def mk_Author_def Let_def
    by (auto simp: post_init_frame split: prod.splits)
  then show ?thesis
    by (cases "ad_is_corresponding ad") (auto simp: t corresponding_terms_match)
qed

text \<open>
  Claim C9. The raw record with the affiliation \<open>Correspondent, Acme Ltd\<close>, no email and no
  explicit flag: the lower-cased affiliation contains \<open>correspond\<close>, but \<open>parse_author\<close> looks
  for \<open>corresponding\<close>, \<open>correspondence\<close> and \<open>whom correspondence\<close> only, so the parsed
  author is not corresponding.
\<close>

theorem correspondent_not_corresponding:
  "parse_author ACADEMIC_KEYWORDS_named COMPANY_KEYWORDS_named
     \<lparr>ad_name = Some ''A Writer'', ad_AffiliationInfo = None,
      ad_affiliation = AffiliationStr ''Correspondent, Acme Ltd'',
      ad_is_corresponding = None\<rparr>
   = Inr \<lparr>name = ''A Writer'', affiliation = Some ''Correspondent, Acme Ltd'', email = None,
          is_corresponding = False, is_non_academic = True, company_name = Some ''Acme Ltd''\<rparr>
   \<and> py_in ''correspond'' (lower ''Correspondent, Acme Ltd'')"
  by code_simp

end
